theory Spec2Isabelle
  imports Complex_Main
begin

section \<open>The invocation router of \<^verbatim>\<open>src/router.ts\<close>\<close>

text \<open>
  The file has two functions. \<^verbatim>\<open>registerFunctionRoutes\<close> adds route bindings to an
  Express application, and \<^verbatim>\<open>executeHandler\<close> runs a request handler between two
  log calls. Both work by effect only, so the model records the calls they make, in
  order, as a list of events.
\<close>

subsection \<open>Data\<close>

text \<open>\<^verbatim>\<open>SignatureType\<close>, imported from \<^verbatim>\<open>./types\<close>.\<close>

datatype SignatureType = HTTP | EVENT | CLOUD_EVENT

text \<open>
  What the code reads of an \<^verbatim>\<open>express.Request\<close>: the method and the path (read by the
  transport when it matches a binding) and \<^verbatim>\<open>req.headers.host\<close>, which is
  \<^verbatim>\<open>string | undefined\<close>.
\<close>

datatype http_method = GET | HEAD | POST | PUT | DELETE | PATCH | OPTIONS

record request =
  req_method :: http_method
  req_path :: string
  req_host :: "string option"

text \<open>
  The functions \<^verbatim>\<open>makeHttpHandler\<close>, \<^verbatim>\<open>wrapEventFunction\<close> and
  \<^verbatim>\<open>wrapCloudEventFunction\<close> are imported from \<^verbatim>\<open>./invoker\<close> and are opaque here:
  they stay uninterpreted constructors over the user's function, so a handler value
  records how it was built and nothing is assumed about what it computes.
\<close>

datatype 'f callable =
    userFunction 'f
  | wrapEventFunction "'f callable"
  | wrapCloudEventFunction "'f callable"

datatype 'f handler = makeHttpHandler "'f callable"

text \<open>
  The calls the two functions make on their collaborators. \<^verbatim>\<open>logExecutionFinished\<close>
  carries its two arguments. The first is a JavaScript number, the quotient of an
  integer below \<open>10^9\<close> by \<open>10^6\<close>; it is modelled by the exact rational quotient
  (the double the runtime computes is that quotient rounded to nearest, which keeps
  the order with \<open>0\<close> and \<open>1000\<close> and is exact wherever a theorem below names a value).
\<close>

datatype 'f event =
    logExecutionStarted
  | logExecutionFinished rat int
  | Construct "'f handler"
  | Invoke "'f handler"
  | onFinished
  | ResStatus int
  | ResSend "string option"
  | Next

text \<open>
  How a promise ends: fulfilled, rejected with an error, or never settled (a handler
  that hangs).
\<close>

datatype 'e settled = Fulfilled | Rejected 'e | Pending

text \<open>
  What one invocation of the handler does, as far as \<^verbatim>\<open>executeHandler\<close> can observe it:
  how the awaited call settles, how many nanoseconds the high-resolution clock advances
  until then, and the value of \<^verbatim>\<open>res.statusCode\<close> at that moment.
\<close>

record 'e behaviour =
  settles :: "'e settled"
  elapsed_ns :: nat
  statusCode :: int

subsection \<open>The high-resolution clock\<close>

text \<open>
  \<^verbatim>\<open>process.hrtime\<close> is the runtime's. The clock is a count of nanoseconds. Without an
  argument the call returns \<^verbatim>\<open>[seconds, nanoseconds]\<close>; with an earlier reading it returns
  the difference, component by component, borrowing one second when the nanosecond
  component would be negative.
\<close>

type_synonym hrtime = "int \<times> int"

definition hrtime :: "nat \<Rightarrow> hrtime" where
  "hrtime now = (int (now div 1000000000), int (now mod 1000000000))"

definition hrtime_since :: "nat \<Rightarrow> hrtime \<Rightarrow> hrtime" where
  "hrtime_since now start =
     (let sec = fst (hrtime now) - fst start;
          nsec = snd (hrtime now) - snd start
      in if nsec < 0 then (sec - 1, nsec + 1000000000) else (sec, nsec))"

subsection \<open>\<^verbatim>\<open>executeHandler\<close>\<close>

text \<open>
  The function is \<^verbatim>\<open>async\<close>: its result is a promise, modelled by how that promise
  settles, next to the events emitted. At \<^verbatim>\<open>await handler(req, res, next)\<close> the function
  goes on only when the handler fulfils; on a rejection its own promise rejects with the
  same error, and on a handler that never settles it never resumes. \<open>now\<close> is the
  clock at entry.
\<close>

definition executeHandler ::
  "'f handler \<Rightarrow> request \<Rightarrow> 'e behaviour \<Rightarrow> nat \<Rightarrow> 'f event list \<times> 'e settled" where
  "executeHandler handler req b now =
     (let SHOULD_LOG_EXECUTION_TIME = (req_host req \<noteq> Some ''cloudfunctions.net'') in
      if SHOULD_LOG_EXECUTION_TIME then
        (let hrstart = hrtime now in
         case settles b of
           Fulfilled \<Rightarrow>
             (let hrend = hrtime_since (now + elapsed_ns b) hrstart in
              ([logExecutionStarted, Invoke handler,
                logExecutionFinished (rat_of_int (snd hrend) / 1000000) (statusCode b)],
               Fulfilled))
         | Rejected e \<Rightarrow> ([logExecutionStarted, Invoke handler], Rejected e)
         | Pending \<Rightarrow> ([logExecutionStarted, Invoke handler], Pending))
      else
        (case settles b of
           Fulfilled \<Rightarrow> ([Invoke handler], Fulfilled)
         | Rejected e \<Rightarrow> ([Invoke handler], Rejected e)
         | Pending \<Rightarrow> ([Invoke handler], Pending)))"

subsection \<open>Route bindings\<close>

text \<open>
  The application object is the transport's. What the code does to it is to append
  bindings with \<^verbatim>\<open>app.use\<close>, \<^verbatim>\<open>app.all\<close> and \<^verbatim>\<open>app.post\<close>, so the application is the
  list of its bindings in registration order. A binding keeps the registering call,
  the path pattern as written in the source, and which of the five callbacks of the
  source it holds; a callback closes over \<^verbatim>\<open>userFunction\<close> only.
\<close>

datatype verb = APP_USE | APP_ALL | APP_POST

datatype 'f action =
    SendNotFound
  | TrackFinish
  | RunHttp 'f
  | RunEvent 'f
  | RunCloudEvent 'f

record 'f binding =
  verb :: verb
  pattern :: string
  action :: "'f action"

definition registerFunctionRoutes ::
  "'f binding list \<Rightarrow> 'f \<Rightarrow> SignatureType \<Rightarrow> 'f binding list" where
  "registerFunctionRoutes app uf functionSignatureType =
     (if functionSignatureType = HTTP then
        app @ [\<lparr>verb = APP_USE, pattern = ''/favicon.ico|/robots.txt'', action = SendNotFound\<rparr>,
               \<lparr>verb = APP_USE, pattern = ''/*'', action = TrackFinish\<rparr>,
               \<lparr>verb = APP_ALL, pattern = ''/*'', action = RunHttp uf\<rparr>]
      else if functionSignatureType = EVENT then
        app @ [\<lparr>verb = APP_POST, pattern = ''/*'', action = RunEvent uf\<rparr>]
      else
        app @ [\<lparr>verb = APP_POST, pattern = ''/*'', action = RunCloudEvent uf\<rparr>])"

subsection \<open>The callbacks\<close>

text \<open>
  What running a callback gives: the events it emits, the error it hands to the
  transport (by throwing out of the callback or by calling \<^verbatim>\<open>next\<close> with it), and the
  promise it creates without returning, awaiting or catching it.
\<close>

record ('f, 'e) outcome =
  events :: "'f event list"
  to_transport :: "'e option"
  floating :: "'e settled option"

text \<open>
  The first callback answers \<^verbatim>\<open>res.status(404).send(null)\<close>. The second attaches the
  observer with \<^verbatim>\<open>onFinished\<close> and calls \<^verbatim>\<open>next()\<close>. The other three build the handler
  and call \<^verbatim>\<open>executeHandler\<close> as a statement: the promise it returns is dropped.
\<close>

fun callback :: "'f action \<Rightarrow> request \<Rightarrow> 'e behaviour \<Rightarrow> nat \<Rightarrow> ('f, 'e) outcome" where
  "callback SendNotFound req b now =
     \<lparr>events = [ResStatus 404, ResSend None], to_transport = None, floating = None\<rparr>"
| "callback TrackFinish req b now =
     \<lparr>events = [onFinished, Next], to_transport = None, floating = None\<rparr>"
| "callback (RunHttp uf) req b now =
     (let handler = makeHttpHandler (userFunction uf);
          r = executeHandler handler req b now
      in \<lparr>events = Construct handler # fst r, to_transport = None, floating = Some (snd r)\<rparr>)"
| "callback (RunEvent uf) req b now =
     (let wrappedUserFunction = wrapEventFunction (userFunction uf);
          handler = makeHttpHandler wrappedUserFunction;
          r = executeHandler handler req b now
      in \<lparr>events = Construct handler # fst r, to_transport = None, floating = Some (snd r)\<rparr>)"
| "callback (RunCloudEvent uf) req b now =
     (let wrappedUserFunction = wrapCloudEventFunction (userFunction uf);
          handler = makeHttpHandler wrappedUserFunction;
          r = executeHandler handler req b now
      in \<lparr>events = Construct handler # fst r, to_transport = None, floating = Some (snd r)\<rparr>)"

subsection \<open>The transport's dispatch\<close>

text \<open>
  Express tries the bindings in registration order. \<^verbatim>\<open>use\<close> and \<^verbatim>\<open>all\<close> accept every
  method, \<^verbatim>\<open>post\<close> accepts POST. Whether a pattern matches a path is the transport's own
  matter and stays a parameter \<open>pm\<close> (registering call, pattern, path). A callback that
  matches runs, and the later bindings are tried only if it called \<^verbatim>\<open>next()\<close>.
\<close>

fun verb_accepts :: "verb \<Rightarrow> http_method \<Rightarrow> bool" where
  "verb_accepts APP_USE m = True"
| "verb_accepts APP_ALL m = True"
| "verb_accepts APP_POST m = (m = POST)"

definition binding_matches ::
  "(verb \<Rightarrow> string \<Rightarrow> string \<Rightarrow> bool) \<Rightarrow> 'f binding \<Rightarrow> request \<Rightarrow> bool" where
  "binding_matches pm l req =
     (verb_accepts (verb l) (req_method req) \<and> pm (verb l) (pattern l) (req_path req))"

fun dispatch ::
  "(verb \<Rightarrow> string \<Rightarrow> string \<Rightarrow> bool) \<Rightarrow> 'f binding list \<Rightarrow> request \<Rightarrow> 'e behaviour \<Rightarrow> nat
    \<Rightarrow> 'f event list" where
  "dispatch pm [] req b now = []"
| "dispatch pm (l # ls) req b now =
     (if binding_matches pm l req then
        (let evs = events (callback (action l) req b now) in
         if Next \<in> set evs then evs @ dispatch pm ls req b now else evs)
      else dispatch pm ls req b now)"

text \<open>
  Requests served one after another by the same application; each comes with what its
  handler invocation does and with the clock at its arrival.
\<close>

fun serve ::
  "(verb \<Rightarrow> string \<Rightarrow> string \<Rightarrow> bool) \<Rightarrow> 'f binding list \<Rightarrow> (request \<times> 'e behaviour \<times> nat) list
    \<Rightarrow> 'f event list" where
  "serve pm app [] = []"
| "serve pm app ((req, b, now) # rs) = dispatch pm app req b now @ serve pm app rs"

text \<open>
  A concrete matcher for the examples: \<^verbatim>\<open>/*\<close> matches every path that starts with a
  slash, and any other pattern matches the paths it lists between bars.
\<close>

fun split_bar :: "string \<Rightarrow> string list" where
  "split_bar [] = [[]]"
| "split_bar (c # cs) =
     (if c = CHR ''|'' then [] # split_bar cs
      else (case split_bar cs of [] \<Rightarrow> [[c]] | w # ws \<Rightarrow> (c # w) # ws))"

definition example_match :: "verb \<Rightarrow> string \<Rightarrow> string \<Rightarrow> bool" where
  "example_match v pat p =
     (if pat = ''/*'' then take 1 p = ''/'' else p \<in> set (split_bar pat))"

subsection \<open>Reading a trace\<close>

fun is_started :: "'f event \<Rightarrow> bool" where
  "is_started logExecutionStarted = True"
| "is_started _ = False"

fun is_finished :: "'f event \<Rightarrow> bool" where
  "is_finished (logExecutionFinished ms code) = True"
| "is_finished _ = False"

fun is_invoke :: "'f event \<Rightarrow> bool" where
  "is_invoke (Invoke h) = True"
| "is_invoke _ = False"

definition count_where :: "('a \<Rightarrow> bool) \<Rightarrow> 'a list \<Rightarrow> nat" where
  "count_where P xs = length (filter P xs)"

text \<open>The arguments of the \<^verbatim>\<open>logExecutionFinished\<close> calls of a trace, in order.\<close>

fun finished_calls :: "'f event list \<Rightarrow> (rat \<times> int) list" where
  "finished_calls [] = []"
| "finished_calls (logExecutionFinished ms code # tr) = (ms, code) # finished_calls tr"
| "finished_calls (e # tr) = finished_calls tr"

text \<open>The handlers built by the \<^verbatim>\<open>makeHttpHandler\<close> calls of a trace, in order.\<close>

fun constructed :: "'f event list \<Rightarrow> 'f handler list" where
  "constructed [] = []"
| "constructed (Construct h # tr) = h # constructed tr"
| "constructed (e # tr) = constructed tr"

text \<open>
  The handler each of the three catch-all callbacks builds, and the requests that get as
  far as that callback in a freshly registered application: under HTTP those the
  favicon and robots binding does not take, under the other two the POST requests.
\<close>

fun built_handler :: "'f \<Rightarrow> SignatureType \<Rightarrow> 'f handler" where
  "built_handler uf HTTP = makeHttpHandler (userFunction uf)"
| "built_handler uf EVENT = makeHttpHandler (wrapEventFunction (userFunction uf))"
| "built_handler uf CLOUD_EVENT = makeHttpHandler (wrapCloudEventFunction (userFunction uf))"

definition reaches_catch_all ::
  "(verb \<Rightarrow> string \<Rightarrow> string \<Rightarrow> bool) \<Rightarrow> SignatureType \<Rightarrow> request \<Rightarrow> bool" where
  "reaches_catch_all pm t req =
     (if t = HTTP then
        \<not> pm APP_USE ''/favicon.ico|/robots.txt'' (req_path req) \<and> pm APP_ALL ''/*'' (req_path req)
      else req_method req = POST \<and> pm APP_POST ''/*'' (req_path req))"

text \<open>
  The claim of whole milliseconds, in the specification's words: the elapsed time
  in milliseconds with the part below one millisecond cut off.
\<close>

definition whole_milliseconds :: "nat \<Rightarrow> rat" where
  "whole_milliseconds ns = rat_of_nat (ns div 1000000)"

section \<open>Properties\<close>

subsection \<open>The clock\<close>

text \<open>
  Reading the clock \<open>d\<close> nanoseconds after \<open>now\<close> and subtracting the reading at
  \<open>now\<close> leaves, in the nanosecond component, \<open>d\<close> modulo one second.
\<close>

lemma mod_shift:
  fixes a d N :: nat
  assumes N: "0 < N"
  shows "(a + d) mod N = (if a mod N + d mod N < N then a mod N + d mod N else a mod N + d mod N - N)"
proof -
  define x where "x = a mod N"
  define c where "c = d mod N"
  have x: "x < N" and c: "c < N" using N by (simp_all add: x_def c_def)
  have e: "(a + d) mod N = (x + c) mod N"
    by (simp add: x_def c_def mod_add_eq)
  have "(x + c) mod N = (if x + c < N then x + c else x + c - N)"
  proof (cases "x + c < N")
    case True
    then show ?thesis by simp
  next
    case False
    then have "N \<le> x + c" by simp
    then have "(x + c) mod N = (x + c - N) mod N" by (rule le_mod_geq)
    moreover have "x + c - N < N" using x c by arith
    ultimately show ?thesis using False by simp
  qed
  then show ?thesis
    unfolding e x_def c_def .
qed

lemma hrtime_since_snd:
  "snd (hrtime_since (now + d) (hrtime now)) = int (d mod 1000000000)"
proof -
  have c: "d mod 1000000000 < 1000000000" by simp
  show ?thesis
    using c by (simp add: hrtime_since_def hrtime_def Let_def mod_shift[of 1000000000 now d])
qed

lemma subsecond_bound: "rat_of_nat (d mod 1000000000) / 1000000 < 1000"
proof -
  have "d mod 1000000000 < 1000000000" by simp
  then have "rat_of_nat (d mod 1000000000) < rat_of_nat 1000000000"
    unfolding of_nat_less_iff .
  then show ?thesis by simp
qed

lemma floor_ms: "\<lfloor>rat_of_nat n / 1000000\<rfloor> = int (n div 1000000)"
proof -
  have "\<lfloor>rat_of_int (int n) / rat_of_int 1000000\<rfloor> = int n div 1000000"
    by (rule floor_divide_of_int_eq)
  then show ?thesis by (simp add: zdiv_int)
qed

subsection \<open>The two branches of \<^verbatim>\<open>executeHandler\<close>\<close>

lemma executeHandler_enabled:
  assumes "req_host req \<noteq> Some ''cloudfunctions.net''"
  shows "executeHandler handler req b now =
     (case settles b of
        Fulfilled \<Rightarrow>
          ([logExecutionStarted, Invoke handler,
            logExecutionFinished (rat_of_nat (elapsed_ns b mod 1000000000) / 1000000) (statusCode b)],
           Fulfilled)
      | Rejected e \<Rightarrow> ([logExecutionStarted, Invoke handler], Rejected e)
      | Pending \<Rightarrow> ([logExecutionStarted, Invoke handler], Pending))"
  using assms by (simp add: executeHandler_def Let_def hrtime_since_snd split: settled.split)

lemma executeHandler_disabled:
  assumes "req_host req = Some ''cloudfunctions.net''"
  shows "executeHandler handler req b now = ([Invoke handler], settles b)"
  using assms by (simp add: executeHandler_def split: settled.split)

lemma executeHandler_settles: "snd (executeHandler handler req b now) = settles b"
  by (cases "req_host req = Some ''cloudfunctions.net''"; cases "settles b")
     (simp_all add: executeHandler_enabled executeHandler_disabled)

lemma executeHandler_cases:
  "fst (executeHandler handler req b now) = [Invoke handler]
   \<or> fst (executeHandler handler req b now) = [logExecutionStarted, Invoke handler]
   \<or> fst (executeHandler handler req b now) =
        [logExecutionStarted, Invoke handler,
         logExecutionFinished (rat_of_nat (elapsed_ns b mod 1000000000) / 1000000) (statusCode b)]"
  by (cases "req_host req = Some ''cloudfunctions.net''"; cases "settles b")
     (simp_all add: executeHandler_enabled executeHandler_disabled)

lemma constructed_executeHandler: "constructed (fst (executeHandler handler req b now)) = []"
  by (cases "req_host req = Some ''cloudfunctions.net''"; cases "settles b")
     (simp_all add: executeHandler_enabled executeHandler_disabled)

lemma constructed_append: "constructed (xs @ ys) = constructed xs @ constructed ys"
  by (induction xs rule: constructed.induct) simp_all

subsection \<open>The catch-all callback and a freshly registered application\<close>

text \<open>
  Whatever the signature type, the binding registered last is the catch-all. The
  second lemma lists what a request gets from an application that holds the bindings of
  \<^verbatim>\<open>registerFunctionRoutes\<close> and no others.
\<close>

lemma callback_catch_all_events:
  "events (callback (action (last (registerFunctionRoutes app uf t))) req b now) =
     Construct (built_handler uf t) # fst (executeHandler (built_handler uf t) req b now)"
  by (cases t) (simp_all add: registerFunctionRoutes_def Let_def)

lemma callback_catch_all_floating:
  "floating (callback (action (last (registerFunctionRoutes app uf t))) req b now) =
     Some (snd (executeHandler (built_handler uf t) req b now))
   \<and> to_transport (callback (action (last (registerFunctionRoutes app uf t))) req b now) = None"
  by (cases t) (simp_all add: registerFunctionRoutes_def Let_def)

lemma dispatch_registered:
  "dispatch pm (registerFunctionRoutes [] uf t) req b now =
     (if t = HTTP then
        (if pm APP_USE ''/favicon.ico|/robots.txt'' (req_path req) then [ResStatus 404, ResSend None]
         else (if pm APP_USE ''/*'' (req_path req) then [onFinished, Next] else [])
              @ (if pm APP_ALL ''/*'' (req_path req)
                 then Construct (built_handler uf t) # fst (executeHandler (built_handler uf t) req b now)
                 else []))
      else if req_method req = POST \<and> pm APP_POST ''/*'' (req_path req)
           then Construct (built_handler uf t) # fst (executeHandler (built_handler uf t) req b now)
           else [])"
  by (cases t) (simp_all add: registerFunctionRoutes_def binding_matches_def Let_def)

lemma constructed_dispatch:
  "constructed (dispatch pm (registerFunctionRoutes [] uf t) req b now) =
     (if reaches_catch_all pm t req then [built_handler uf t] else [])"
  by (simp add: dispatch_registered reaches_catch_all_def constructed_append
        constructed_executeHandler)

section \<open>The claims\<close>

subsection \<open>C1: the elapsed value and the status code\<close>

text \<open>
  C1 as stated does not hold. The claim has the executor pass a whole number of
  milliseconds, cut off below the millisecond. A handler that fulfils after 1.5 ms makes
  \<^verbatim>\<open>hrend[1] / 1_000_000\<close> the value \<open>3/2\<close>, which is what the finished log receives; the
  claim's value would be \<open>1\<close>.
\<close>

theorem C1_counterexample:
  "finished_calls (fst (executeHandler (makeHttpHandler (userFunction ''f''))
       \<lparr>req_method = GET, req_path = ''/'', req_host = Some ''localhost:8080''\<rparr>
       \<lparr>settles = (Fulfilled :: string settled), elapsed_ns = 1500000, statusCode = 200\<rparr> 0)) =
     [(3 / 2, 200)]
   \<and> finished_calls (fst (executeHandler (makeHttpHandler (userFunction ''f''))
       \<lparr>req_method = GET, req_path = ''/'', req_host = Some ''localhost:8080''\<rparr>
       \<lparr>settles = (Fulfilled :: string settled), elapsed_ns = 1500000, statusCode = 200\<rparr> 0)) \<noteq>
     [(whole_milliseconds 1500000, 200)]
   \<and> rat_of_int \<lfloor>3 / 2 :: rat\<rfloor> \<noteq> 3 / 2"
proof -
  have "\<lfloor>3 / 2 :: rat\<rfloor> = 1"
    by (rule floor_unique) simp_all
  then show ?thesis
    by (simp add: executeHandler_enabled whole_milliseconds_def)
qed

text \<open>
  C1, amended. With timing enabled, when the handler fulfils in less than one second,
  the single \<^verbatim>\<open>logExecutionFinished\<close> call receives the elapsed time in milliseconds with
  its fraction kept (the elapsed nanoseconds over one million, neither cut off nor
  rounded) together with \<^verbatim>\<open>res.statusCode\<close>; the whole milliseconds of the claim are the
  integer part of that value.
\<close>

theorem C1_fraction_kept_below_one_second:
  assumes "req_host req \<noteq> Some ''cloudfunctions.net''" and "settles b = Fulfilled"
    and "elapsed_ns b < 1000000000"
  shows "finished_calls (fst (executeHandler handler req b now)) =
           [(rat_of_nat (elapsed_ns b) / 1000000, statusCode b)]
       \<and> rat_of_int \<lfloor>rat_of_nat (elapsed_ns b) / 1000000\<rfloor> = whole_milliseconds (elapsed_ns b)"
  using assms by (simp add: executeHandler_enabled floor_ms whole_milliseconds_def)

text \<open>
  An instance: 2.75 ms elapsed, status 204.
\<close>

theorem C1_witness:
  "finished_calls (fst (executeHandler (makeHttpHandler (userFunction ''f''))
       \<lparr>req_method = GET, req_path = ''/'', req_host = None\<rparr>
       \<lparr>settles = (Fulfilled :: string settled), elapsed_ns = 2750000, statusCode = 204\<rparr> 999999999)) =
     [(11 / 4, 204)]
   \<and> whole_milliseconds 2750000 = 2"
  using C1_fraction_kept_below_one_second
    [of "\<lparr>req_method = GET, req_path = ''/'', req_host = None\<rparr>"
        "\<lparr>settles = (Fulfilled :: string settled), elapsed_ns = 2750000, statusCode = 204\<rparr>"
        "makeHttpHandler (userFunction ''f'')" 999999999]
  by (simp add: whole_milliseconds_def)

subsection \<open>C2: where the handler is built\<close>

text \<open>
  C2 as stated does not hold. The claim has the handler built once, at registration, and
  reused. \<^verbatim>\<open>makeHttpHandler\<close> is called inside the route callback, so registration builds
  nothing and two requests to an HTTP route build two handlers.
\<close>

theorem C2_counterexample:
  "constructed (serve example_match (registerFunctionRoutes [] ''f'' HTTP)
      [(\<lparr>req_method = GET, req_path = ''/a'', req_host = None\<rparr>,
        \<lparr>settles = (Fulfilled :: string settled), elapsed_ns = 5, statusCode = 200\<rparr>, 0),
       (\<lparr>req_method = GET, req_path = ''/b'', req_host = None\<rparr>,
        \<lparr>settles = (Fulfilled :: string settled), elapsed_ns = 5, statusCode = 200\<rparr>, 10)]) =
     [makeHttpHandler (userFunction ''f''), makeHttpHandler (userFunction ''f'')]
   \<and> constructed (serve example_match (registerFunctionRoutes [] ''f'' HTTP) ([] :: (request \<times> string behaviour \<times> nat) list)) = []"
  by (simp add: constructed_append constructed_dispatch reaches_catch_all_def example_match_def)

text \<open>
  C2, amended. For every signature type, the handler is built by the route callback:
  each request that reaches the catch-all builds one, always from the same user function
  through the adapter of the route's signature type, and the other requests build none.
  A sequence of requests therefore builds as many handlers as it has requests that
  reach the catch-all.
\<close>

theorem C2_handler_built_on_each_request:
  "constructed (serve pm (registerFunctionRoutes [] uf t) rs) =
     replicate (length (filter (\<lambda>r. reaches_catch_all pm t (fst r)) rs)) (built_handler uf t)"
proof (induction rs)
  case Nil
  show ?case by simp
next
  case (Cons r rs)
  obtain req b now where r: "r = (req, b, now)" by (cases r)
  show ?case
    unfolding r using Cons.IH
    by (simp add: constructed_append constructed_dispatch)
qed

text \<open>
  An instance: three requests to an EVENT route, two of them POST.
\<close>

theorem C2_witness:
  "constructed (serve example_match (registerFunctionRoutes [] ''f'' EVENT)
      [(\<lparr>req_method = POST, req_path = ''/a'', req_host = None\<rparr>,
        \<lparr>settles = (Fulfilled :: string settled), elapsed_ns = 5, statusCode = 200\<rparr>, 0),
       (\<lparr>req_method = GET, req_path = ''/b'', req_host = None\<rparr>,
        \<lparr>settles = (Fulfilled :: string settled), elapsed_ns = 5, statusCode = 200\<rparr>, 10),
       (\<lparr>req_method = POST, req_path = ''/c'', req_host = None\<rparr>,
        \<lparr>settles = (Pending :: string settled), elapsed_ns = 5, statusCode = 200\<rparr>, 20)]) =
     [makeHttpHandler (wrapEventFunction (userFunction ''f'')),
      makeHttpHandler (wrapEventFunction (userFunction ''f''))]"
  using C2_handler_built_on_each_request
    [of example_match "''f''" EVENT
      "[(\<lparr>req_method = POST, req_path = ''/a'', req_host = None\<rparr>,
        \<lparr>settles = (Fulfilled :: string settled), elapsed_ns = 5, statusCode = 200\<rparr>, 0),
       (\<lparr>req_method = GET, req_path = ''/b'', req_host = None\<rparr>,
        \<lparr>settles = (Fulfilled :: string settled), elapsed_ns = 5, statusCode = 200\<rparr>, 10),
       (\<lparr>req_method = POST, req_path = ''/c'', req_host = None\<rparr>,
        \<lparr>settles = (Pending :: string settled), elapsed_ns = 5, statusCode = 200\<rparr>, 20)]"]
  by (simp add: reaches_catch_all_def example_match_def)

subsection \<open>C3: a handler that rejects\<close>

text \<open>
  C3 as stated does not hold in one part. The claim names the transport's error path
  as the place the error arrives at. The caller of \<^verbatim>\<open>executeHandler\<close> is the route
  callback, which calls it as a statement: the returned promise is neither awaited nor
  returned nor given a \<^verbatim>\<open>catch\<close>. With a handler that rejects with \<open>boom\<close> the callback
  hands no error to the transport, and the rejection sits on the dropped promise.
\<close>

theorem C3_counterexample:
  "to_transport (callback (RunHttp ''f'')
       \<lparr>req_method = GET, req_path = ''/'', req_host = Some ''localhost''\<rparr>
       \<lparr>settles = Rejected ''boom'', elapsed_ns = 5, statusCode = 200\<rparr> 0) = None
   \<and> floating (callback (RunHttp ''f'')
       \<lparr>req_method = GET, req_path = ''/'', req_host = Some ''localhost''\<rparr>
       \<lparr>settles = Rejected ''boom'', elapsed_ns = 5, statusCode = 200\<rparr> 0) = Some (Rejected ''boom'')
   \<and> events (callback (RunHttp ''f'')
       \<lparr>req_method = GET, req_path = ''/'', req_host = Some ''localhost''\<rparr>
       \<lparr>settles = Rejected ''boom'', elapsed_ns = 5, statusCode = 200\<rparr> 0) =
     [Construct (makeHttpHandler (userFunction ''f'')), logExecutionStarted,
      Invoke (makeHttpHandler (userFunction ''f''))]"
  by (simp add: Let_def executeHandler_enabled)

text \<open>
  C3, amended. An error thrown or a rejection produced by the handler is not caught,
  wrapped, translated or swallowed by \<^verbatim>\<open>executeHandler\<close>: its own promise rejects with the
  same error, and no \<^verbatim>\<open>logExecutionFinished\<close> call is made (with timing enabled the trace
  stops after the started log and the invocation). The route callback that called it
  drops that promise, so the rejection stays there and this layer passes no error to
  the transport.
\<close>

theorem C3_rejection_stays_on_dropped_promise:
  assumes "settles b = Rejected e"
  shows "snd (executeHandler handler req b now) = Rejected e
       \<and> finished_calls (fst (executeHandler handler req b now)) = []
       \<and> fst (executeHandler handler req b now) =
           (if req_host req \<noteq> Some ''cloudfunctions.net''
            then [logExecutionStarted, Invoke handler] else [Invoke handler])
       \<and> floating (callback (action (last (registerFunctionRoutes app uf t))) req b now) =
           Some (Rejected e)
       \<and> to_transport (callback (action (last (registerFunctionRoutes app uf t))) req b now) = None"
  using assms
  by (simp add: executeHandler_settles callback_catch_all_floating
        executeHandler_enabled executeHandler_disabled)

text \<open>
  An instance: an EVENT route, a request without host header, a handler rejecting with
  \<open>boom\<close>.
\<close>

theorem C3_witness:
  "snd (executeHandler (makeHttpHandler (userFunction ''f''))
       \<lparr>req_method = POST, req_path = ''/'', req_host = None\<rparr>
       \<lparr>settles = Rejected ''boom'', elapsed_ns = 5, statusCode = 500\<rparr> 0) = Rejected ''boom''
   \<and> fst (executeHandler (makeHttpHandler (userFunction ''f''))
       \<lparr>req_method = POST, req_path = ''/'', req_host = None\<rparr>
       \<lparr>settles = Rejected ''boom'', elapsed_ns = 5, statusCode = 500\<rparr> 0) =
     [logExecutionStarted, Invoke (makeHttpHandler (userFunction ''f''))]
   \<and> floating (callback (RunEvent ''f'')
       \<lparr>req_method = POST, req_path = ''/'', req_host = None\<rparr>
       \<lparr>settles = Rejected ''boom'', elapsed_ns = 5, statusCode = 500\<rparr> 0) = Some (Rejected ''boom'')"
  using C3_rejection_stays_on_dropped_promise
    [of "\<lparr>settles = Rejected ''boom'', elapsed_ns = 5, statusCode = 500\<rparr>" "''boom''"
        "makeHttpHandler (userFunction ''f'')"
        "\<lparr>req_method = POST, req_path = ''/'', req_host = None\<rparr>" 0 "[]" "''f''" EVENT]
  by (simp add: registerFunctionRoutes_def)

subsection \<open>C4: when timing is suppressed\<close>

text \<open>
  C4. An invocation makes no \<^verbatim>\<open>logExecutionStarted\<close> and no \<^verbatim>\<open>logExecutionFinished\<close> call
  if and only if \<^verbatim>\<open>req.headers.host\<close> is the string \<^verbatim>\<open>cloudfunctions.net\<close>. This holds of
  \<^verbatim>\<open>executeHandler\<close> and of the catch-all callback of every signature type. For any
  other host, an absent or empty one too, the started log is made once.
\<close>

theorem C4_suppressed_iff_host_is_literal:
  "((count_where is_started (fst (executeHandler handler req b now)) = 0
       \<and> count_where is_finished (fst (executeHandler handler req b now)) = 0)
      \<longleftrightarrow> req_host req = Some ''cloudfunctions.net'')
   \<and> ((count_where is_started
          (events (callback (action (last (registerFunctionRoutes app uf t))) req b now)) = 0
       \<and> count_where is_finished
          (events (callback (action (last (registerFunctionRoutes app uf t))) req b now)) = 0)
      \<longleftrightarrow> req_host req = Some ''cloudfunctions.net'')
   \<and> (req_host req \<noteq> Some ''cloudfunctions.net'' \<longrightarrow>
        count_where is_started (fst (executeHandler handler req b now)) = 1)"
proof (cases "req_host req = Some ''cloudfunctions.net''")
  case True
  then show ?thesis
    by (simp add: callback_catch_all_events executeHandler_disabled count_where_def)
next
  case False
  then show ?thesis
    by (cases "settles b")
       (simp_all add: callback_catch_all_events executeHandler_enabled count_where_def)
qed

text \<open>
  Instances: the literal host, the empty host and the absent host.
\<close>

theorem C4_witness:
  "count_where is_started (fst (executeHandler (makeHttpHandler (userFunction ''f''))
       \<lparr>req_method = GET, req_path = ''/'', req_host = Some ''cloudfunctions.net''\<rparr>
       \<lparr>settles = (Fulfilled :: string settled), elapsed_ns = 5, statusCode = 200\<rparr> 0)) = 0
   \<and> count_where is_finished (fst (executeHandler (makeHttpHandler (userFunction ''f''))
       \<lparr>req_method = GET, req_path = ''/'', req_host = Some ''cloudfunctions.net''\<rparr>
       \<lparr>settles = (Fulfilled :: string settled), elapsed_ns = 5, statusCode = 200\<rparr> 0)) = 0
   \<and> count_where is_started (fst (executeHandler (makeHttpHandler (userFunction ''f''))
       \<lparr>req_method = GET, req_path = ''/'', req_host = Some ''''\<rparr>
       \<lparr>settles = (Fulfilled :: string settled), elapsed_ns = 5, statusCode = 200\<rparr> 0)) = 1
   \<and> count_where is_started (fst (executeHandler (makeHttpHandler (userFunction ''f''))
       \<lparr>req_method = GET, req_path = ''/'', req_host = None\<rparr>
       \<lparr>settles = (Fulfilled :: string settled), elapsed_ns = 5, statusCode = 200\<rparr> 0)) = 1"
  using
    C4_suppressed_iff_host_is_literal
      [of "makeHttpHandler (userFunction ''f'')"
          "\<lparr>req_method = GET, req_path = ''/'', req_host = Some ''cloudfunctions.net''\<rparr>"
          "\<lparr>settles = (Fulfilled :: string settled), elapsed_ns = 5, statusCode = 200\<rparr>" 0
          "[]" "''f''" HTTP]
    C4_suppressed_iff_host_is_literal
      [of "makeHttpHandler (userFunction ''f'')"
          "\<lparr>req_method = GET, req_path = ''/'', req_host = Some ''''\<rparr>"
          "\<lparr>settles = (Fulfilled :: string settled), elapsed_ns = 5, statusCode = 200\<rparr>" 0
          "[]" "''f''" HTTP]
    C4_suppressed_iff_host_is_literal
      [of "makeHttpHandler (userFunction ''f'')"
          "\<lparr>req_method = GET, req_path = ''/'', req_host = None\<rparr>"
          "\<lparr>settles = (Fulfilled :: string settled), elapsed_ns = 5, statusCode = 200\<rparr>" 0
          "[]" "''f''" HTTP]
  by simp

subsection \<open>C5: favicon and robots\<close>

text \<open>
  C5. Take a request whose path the transport matches against the pattern
  \<^verbatim>\<open>/favicon.ico|/robots.txt\<close>, as it does for \<^verbatim>\<open>/favicon.ico\<close> and \<^verbatim>\<open>/robots.txt\<close>. A freshly
  registered application answers it with status 404 and an empty body, and nothing
  else, exactly when the signature type is HTTP; the handler is then not invoked. Under
  EVENT and CLOUD_EVENT no binding with that callback is registered.
\<close>

theorem C5_not_found_only_under_http:
  assumes "pm APP_USE ''/favicon.ico|/robots.txt'' (req_path req)"
  shows "(dispatch pm (registerFunctionRoutes [] uf t) req b now = [ResStatus 404, ResSend None]
            \<longleftrightarrow> t = HTTP)
       \<and> (ResStatus 404 \<in> set (dispatch pm (registerFunctionRoutes [] uf t) req b now)
            \<longleftrightarrow> t = HTTP)
       \<and> (SendNotFound \<in> set (map action (registerFunctionRoutes [] uf t)) \<longleftrightarrow> t = HTTP)
       \<and> (t = HTTP \<longrightarrow> filter is_invoke (dispatch pm (registerFunctionRoutes [] uf t) req b now) = [])"
proof -
  have a: "ResStatus 404 \<notin> set (fst (executeHandler h req b now))" for h :: "'a handler"
    using executeHandler_cases [of h req b now] by auto
  have c: "SendNotFound \<in> set (map action (registerFunctionRoutes [] uf t)) \<longleftrightarrow> t = HTTP"
    by (cases t) (simp_all add: registerFunctionRoutes_def)
  show ?thesis
    using assms a c by (simp add: dispatch_registered)
qed

text \<open>
  Instances: both paths under HTTP, and a POST to \<^verbatim>\<open>/favicon.ico\<close> under CLOUD_EVENT.
\<close>

theorem C5_witness:
  "dispatch example_match (registerFunctionRoutes [] ''f'' HTTP)
       \<lparr>req_method = GET, req_path = ''/favicon.ico'', req_host = None\<rparr>
       \<lparr>settles = (Fulfilled :: string settled), elapsed_ns = 5, statusCode = 200\<rparr> 0 =
     [ResStatus 404, ResSend None]
   \<and> dispatch example_match (registerFunctionRoutes [] ''f'' HTTP)
       \<lparr>req_method = POST, req_path = ''/robots.txt'', req_host = None\<rparr>
       \<lparr>settles = (Fulfilled :: string settled), elapsed_ns = 5, statusCode = 200\<rparr> 0 =
     [ResStatus 404, ResSend None]
   \<and> ResStatus 404 \<notin> set (dispatch example_match (registerFunctionRoutes [] ''f'' CLOUD_EVENT)
       \<lparr>req_method = POST, req_path = ''/favicon.ico'', req_host = None\<rparr>
       \<lparr>settles = (Fulfilled :: string settled), elapsed_ns = 5, statusCode = 200\<rparr> 0)"
proof -
  have m: "example_match APP_USE ''/favicon.ico|/robots.txt'' ''/favicon.ico''"
          "example_match APP_USE ''/favicon.ico|/robots.txt'' ''/robots.txt''"
    by (simp_all add: example_match_def)
  show ?thesis
    using
      C5_not_found_only_under_http
        [of example_match "\<lparr>req_method = GET, req_path = ''/favicon.ico'', req_host = None\<rparr>"
            "''f''" HTTP
            "\<lparr>settles = (Fulfilled :: string settled), elapsed_ns = 5, statusCode = 200\<rparr>" 0]
      C5_not_found_only_under_http
        [of example_match "\<lparr>req_method = POST, req_path = ''/robots.txt'', req_host = None\<rparr>"
            "''f''" HTTP
            "\<lparr>settles = (Fulfilled :: string settled), elapsed_ns = 5, statusCode = 200\<rparr>" 0]
      C5_not_found_only_under_http
        [of example_match "\<lparr>req_method = POST, req_path = ''/favicon.ico'', req_host = None\<rparr>"
            "''f''" CLOUD_EVENT
            "\<lparr>settles = (Fulfilled :: string settled), elapsed_ns = 5, statusCode = 200\<rparr>" 0]
      m
    by simp
qed

subsection \<open>C6: the observer comes first\<close>

text \<open>
  C6. Under HTTP the tracker binding is registered before the catch-all; its callback
  attaches the observer with \<^verbatim>\<open>onFinished\<close> and then calls \<^verbatim>\<open>next()\<close>. For a request
  whose path the transport matches against the tracker's \<^verbatim>\<open>/*\<close>, whenever the handler is
  invoked the trace up to the invocation starts with the observer being attached.
\<close>

theorem C6_observer_before_handler:
  assumes "pm APP_USE ''/*'' (req_path req)"
  shows "registerFunctionRoutes app uf HTTP =
           app @ [\<lparr>verb = APP_USE, pattern = ''/favicon.ico|/robots.txt'', action = SendNotFound\<rparr>,
                  \<lparr>verb = APP_USE, pattern = ''/*'', action = TrackFinish\<rparr>,
                  \<lparr>verb = APP_ALL, pattern = ''/*'', action = RunHttp uf\<rparr>]
       \<and> events (callback TrackFinish req b now) = [onFinished, Next]
       \<and> (list_ex is_invoke (dispatch pm (registerFunctionRoutes [] uf HTTP) req b now) \<longrightarrow>
            takeWhile (\<lambda>e. \<not> is_invoke e) (dispatch pm (registerFunctionRoutes [] uf HTTP) req b now) =
              onFinished # Next # Construct (makeHttpHandler (userFunction uf))
                # takeWhile (\<lambda>e. \<not> is_invoke e) (fst (executeHandler (makeHttpHandler (userFunction uf)) req b now)))"
  using assms
  by (simp add: dispatch_registered) (simp add: registerFunctionRoutes_def)

text \<open>
  An instance: a GET of \<^verbatim>\<open>/hello\<close> with a handler that rejects.
\<close>

theorem C6_witness:
  "takeWhile (\<lambda>e. \<not> is_invoke e)
     (dispatch example_match (registerFunctionRoutes [] ''f'' HTTP)
       \<lparr>req_method = GET, req_path = ''/hello'', req_host = None\<rparr>
       \<lparr>settles = Rejected ''boom'', elapsed_ns = 5, statusCode = 200\<rparr> 0) =
     [onFinished, Next, Construct (makeHttpHandler (userFunction ''f'')), logExecutionStarted]
   \<and> list_ex is_invoke
     (dispatch example_match (registerFunctionRoutes [] ''f'' HTTP)
       \<lparr>req_method = GET, req_path = ''/hello'', req_host = None\<rparr>
       \<lparr>settles = Rejected ''boom'', elapsed_ns = 5, statusCode = 200\<rparr> 0)"
proof -
  have m: "example_match APP_USE ''/*'' ''/hello''"
    by (simp add: example_match_def)
  have i: "list_ex is_invoke
     (dispatch example_match (registerFunctionRoutes [] ''f'' HTTP)
       \<lparr>req_method = GET, req_path = ''/hello'', req_host = None\<rparr>
       \<lparr>settles = Rejected ''boom'', elapsed_ns = 5, statusCode = 200\<rparr> 0)"
    by (simp add: dispatch_registered example_match_def executeHandler_enabled)
  show ?thesis
    using
      C6_observer_before_handler
        [of example_match "\<lparr>req_method = GET, req_path = ''/hello'', req_host = None\<rparr>"
            "[]" "''f''" "\<lparr>settles = Rejected ''boom'', elapsed_ns = 5, statusCode = 200\<rparr>" 0]
      m i
    by (simp add: executeHandler_enabled registerFunctionRoutes_def binding_matches_def
          example_match_def Let_def)
qed

subsection \<open>C7: POST only under EVENT and CLOUD_EVENT\<close>

text \<open>
  C7. Under EVENT and CLOUD_EVENT \<^verbatim>\<open>registerFunctionRoutes\<close> adds exactly one binding, made
  with \<^verbatim>\<open>app.post\<close> on \<^verbatim>\<open>/*\<close>. A request with another method matches no binding of a
  freshly registered application and causes no event; the handler is invoked only for
  POST requests; and a POST request on a path matched by \<^verbatim>\<open>/*\<close> reaches it.
\<close>

theorem C7_post_only_catch_all:
  assumes "t \<noteq> HTTP"
  shows "registerFunctionRoutes app uf t =
           app @ [\<lparr>verb = APP_POST, pattern = ''/*'',
                    action = (if t = EVENT then RunEvent uf else RunCloudEvent uf)\<rparr>]
       \<and> (req_method req \<noteq> POST \<longrightarrow>
            filter (\<lambda>l. binding_matches pm l req) (registerFunctionRoutes [] uf t) = []
          \<and> dispatch pm (registerFunctionRoutes [] uf t) req b now = [])
       \<and> (list_ex is_invoke (dispatch pm (registerFunctionRoutes [] uf t) req b now) \<longrightarrow>
            req_method req = POST)
       \<and> (req_method req = POST \<and> pm APP_POST ''/*'' (req_path req) \<longrightarrow>
            dispatch pm (registerFunctionRoutes [] uf t) req b now =
              Construct (built_handler uf t) # fst (executeHandler (built_handler uf t) req b now))"
  using assms
  by (cases t) (simp_all add: dispatch_registered, simp_all add: registerFunctionRoutes_def binding_matches_def)

text \<open>
  Instances: a GET under EVENT, a POST under CLOUD_EVENT.
\<close>

theorem C7_witness:
  "registerFunctionRoutes [] ''f'' EVENT =
     [\<lparr>verb = APP_POST, pattern = ''/*'', action = RunEvent ''f''\<rparr>]
   \<and> dispatch example_match (registerFunctionRoutes [] ''f'' EVENT)
       \<lparr>req_method = GET, req_path = ''/hello'', req_host = None\<rparr>
       \<lparr>settles = (Fulfilled :: string settled), elapsed_ns = 5, statusCode = 200\<rparr> 0 = []
   \<and> dispatch example_match (registerFunctionRoutes [] ''f'' CLOUD_EVENT)
       \<lparr>req_method = POST, req_path = ''/hello'', req_host = Some ''cloudfunctions.net''\<rparr>
       \<lparr>settles = (Fulfilled :: string settled), elapsed_ns = 5, statusCode = 200\<rparr> 0 =
     [Construct (makeHttpHandler (wrapCloudEventFunction (userFunction ''f''))),
      Invoke (makeHttpHandler (wrapCloudEventFunction (userFunction ''f'')))]"
proof -
  have m: "example_match APP_POST ''/*'' ''/hello''"
    by (simp add: example_match_def)
  show ?thesis
    using
      C7_post_only_catch_all
        [of EVENT "[]" "''f''" "\<lparr>req_method = GET, req_path = ''/hello'', req_host = None\<rparr>"
            example_match
            "\<lparr>settles = (Fulfilled :: string settled), elapsed_ns = 5, statusCode = 200\<rparr>" 0]
      C7_post_only_catch_all
        [of CLOUD_EVENT "[]" "''f''"
            "\<lparr>req_method = POST, req_path = ''/hello'', req_host = Some ''cloudfunctions.net''\<rparr>"
            example_match
            "\<lparr>settles = (Fulfilled :: string settled), elapsed_ns = 5, statusCode = 200\<rparr>" 0]
      m
    by (simp add: executeHandler_disabled registerFunctionRoutes_def binding_matches_def
          example_match_def Let_def)
qed

subsection \<open>C8: one started and one finished log\<close>

text \<open>
  C8. The property: when the host is not \<^verbatim>\<open>cloudfunctions.net\<close> (an absent host too),
  exactly one \<^verbatim>\<open>logExecutionStarted\<close> call comes before the handler is invoked, and when
  the handler fulfils exactly one \<^verbatim>\<open>logExecutionFinished\<close> call follows, carrying the
  duration of the invocation in milliseconds, not negative, and \<^verbatim>\<open>res.statusCode\<close> as it
  is then. The code departs from it in the duration: \<^verbatim>\<open>hrend[0]\<close>, the whole seconds, is
  never read. With no host header and status 200, a handler that fulfils after exactly
  one second has \<open>0\<close> passed instead of \<open>1000\<close>, and one that fulfils after 1101.6 ms
  has \<open>508/5\<close>, that is 101.6, passed instead of \<open>5508/5\<close>. The calls themselves are
  made as the property says.
\<close>

theorem C8_whole_seconds_missing_from_duration:
  "fst (executeHandler (makeHttpHandler (userFunction ''f''))
       \<lparr>req_method = GET, req_path = ''/'', req_host = None\<rparr>
       \<lparr>settles = (Fulfilled :: string settled), elapsed_ns = 1000000000, statusCode = 200\<rparr> 0) =
     [logExecutionStarted, Invoke (makeHttpHandler (userFunction ''f'')),
      logExecutionFinished 0 200]
   \<and> rat_of_nat 1000000000 / 1000000 = (1000 :: rat)
   \<and> fst (executeHandler (makeHttpHandler (userFunction ''f''))
       \<lparr>req_method = GET, req_path = ''/'', req_host = None\<rparr>
       \<lparr>settles = (Fulfilled :: string settled), elapsed_ns = 1101600000, statusCode = 200\<rparr>
       999999999) =
     [logExecutionStarted, Invoke (makeHttpHandler (userFunction ''f'')),
      logExecutionFinished (508 / 5) 200]
   \<and> rat_of_nat 1101600000 / 1000000 = (5508 / 5 :: rat)"
  by (simp add: executeHandler_def hrtime_since_def hrtime_def)

subsection \<open>C9: the value passed to the finished log\<close>

text \<open>
  C9. With timing enabled and a handler that fulfils, the one \<^verbatim>\<open>logExecutionFinished\<close> call
  gets \<^verbatim>\<open>hrend[1] / 1_000_000\<close>: the nanoseconds of the elapsed time below one second,
  divided by one million. The value lies in \<open>[0, 1000)\<close>, it can be fractional, and whole
  seconds of elapsed time do not change it.
\<close>

theorem C9_elapsed_is_subsecond_remainder:
  assumes "req_host req \<noteq> Some ''cloudfunctions.net''" and "settles b = Fulfilled"
  shows "finished_calls (fst (executeHandler handler req b now)) =
           [(rat_of_nat (elapsed_ns b mod 1000000000) / 1000000, statusCode b)]
       \<and> 0 \<le> rat_of_nat (elapsed_ns b mod 1000000000) / 1000000
       \<and> rat_of_nat (elapsed_ns b mod 1000000000) / 1000000 < 1000
       \<and> finished_calls (fst (executeHandler handler req
             (b\<lparr>elapsed_ns := elapsed_ns b + k * 1000000000\<rparr>) now)) =
           finished_calls (fst (executeHandler handler req b now))"
  using assms by (simp add: executeHandler_enabled subsecond_bound)

text \<open>
  An instance: 2000.0015 seconds elapsed, and the value passed is \<open>3/2\<close>.
\<close>

theorem C9_witness:
  "finished_calls (fst (executeHandler (makeHttpHandler (userFunction ''f''))
       \<lparr>req_method = GET, req_path = ''/'', req_host = Some ''localhost:8080''\<rparr>
       \<lparr>settles = (Fulfilled :: string settled), elapsed_ns = 2000001500000, statusCode = 200\<rparr> 7)) =
     [(3 / 2, 200)]
   \<and> (3 / 2 :: rat) < 1000"
  using C9_elapsed_is_subsecond_remainder
    [of "\<lparr>req_method = GET, req_path = ''/'', req_host = Some ''localhost:8080''\<rparr>"
        "\<lparr>settles = (Fulfilled :: string settled), elapsed_ns = 2000001500000, statusCode = 200\<rparr>"
        "makeHttpHandler (userFunction ''f'')" 7 0]
  by simp

subsection \<open>C10: the host is compared as it is\<close>

text \<open>
  C10. The test is equality with the string \<^verbatim>\<open>cloudfunctions.net\<close> on the header as
  received. Every other host makes the started log the first event: another letter case,
  a port, a subdomain, a blank before or after, a trailing dot, the empty string, no
  header. The literal itself makes no started log.
\<close>

theorem C10_strict_equality_on_raw_host:
  "(req_host req \<noteq> Some ''cloudfunctions.net'' \<longrightarrow>
      hd (fst (executeHandler handler req b now)) = logExecutionStarted)
   \<and> (req_host req = Some ''cloudfunctions.net'' \<longrightarrow>
      logExecutionStarted \<notin> set (fst (executeHandler handler req b now)))
   \<and> list_all (\<lambda>host. hd (fst (executeHandler handler (req\<lparr>req_host := host\<rparr>) b now)) = logExecutionStarted)
        [Some ''Cloudfunctions.net'', Some ''CLOUDFUNCTIONS.NET'', Some ''cloudfunctions.net:8080'',
         Some ''us-central1-demo.cloudfunctions.net'', Some '' cloudfunctions.net'',
         Some ''cloudfunctions.net '', Some ''cloudfunctions.net.'', Some '''', None]"
proof -
  have on: "hd (fst (executeHandler handler r b now)) = logExecutionStarted"
    if "req_host r \<noteq> Some ''cloudfunctions.net''" for r
    using that by (cases "settles b") (simp_all add: executeHandler_enabled)
  have off: "logExecutionStarted \<notin> set (fst (executeHandler handler req b now))"
    if "req_host req = Some ''cloudfunctions.net''"
    using that by (simp add: executeHandler_disabled)
  show ?thesis
    using on [of req] off by (simp add: on)
qed

text \<open>
  Instances: the literal with a port, and the literal.
\<close>

theorem C10_witness:
  "hd (fst (executeHandler (makeHttpHandler (userFunction ''f''))
       \<lparr>req_method = GET, req_path = ''/'', req_host = Some ''cloudfunctions.net:8080''\<rparr>
       \<lparr>settles = Rejected ''boom'', elapsed_ns = 5, statusCode = 200\<rparr> 0)) = logExecutionStarted
   \<and> logExecutionStarted \<notin> set (fst (executeHandler (makeHttpHandler (userFunction ''f''))
       \<lparr>req_method = GET, req_path = ''/'', req_host = Some ''cloudfunctions.net''\<rparr>
       \<lparr>settles = Rejected ''boom'', elapsed_ns = 5, statusCode = 200\<rparr> 0))"
  using
    C10_strict_equality_on_raw_host
      [of "\<lparr>req_method = GET, req_path = ''/'', req_host = Some ''cloudfunctions.net:8080''\<rparr>"
          "makeHttpHandler (userFunction ''f'')"
          "\<lparr>settles = Rejected ''boom'', elapsed_ns = 5, statusCode = 200\<rparr>" 0]
    C10_strict_equality_on_raw_host
      [of "\<lparr>req_method = GET, req_path = ''/'', req_host = Some ''cloudfunctions.net''\<rparr>"
          "makeHttpHandler (userFunction ''f'')"
          "\<lparr>settles = Rejected ''boom'', elapsed_ns = 5, statusCode = 200\<rparr>" 0]
  by simp

end
